theory Spec2Isabelle
  imports Complex_Main
begin

section \<open>Invoice data extractor: the model of \<open>invoices2.py\<close>\<close>

text \<open>
  Python strings are modelled as \<^typ>\<open>string\<close>: a character is a code point below 256
  (Latin-1), so a with tilde is \<open>CHR 0xE3\<close> and u with acute is \<open>CHR 0xFA\<close>. A Python
  \<open>float\<close> is modelled by the exact decimal value it is parsed from, a \<^typ>\<open>rat\<close>;
  binary rounding is outside the model. The float \<open>0.0\<close> is the rational \<open>0\<close>.
\<close>

subsection \<open>Exceptions\<close>

text \<open>
  The exception classes the program meets, each with the text \<open>str(e)\<close> gives.
  \<open>LibraryError\<close> stands for any \<open>Exception\<close> raised by pdfplumber, openpyxl or
  the file system.
\<close>

datatype exn =
    ValueError string
  | IndexError string
  | AttributeError string
  | LibraryError string

fun exn_msg :: "exn \<Rightarrow> string" where
  "exn_msg (ValueError m) = m"
| "exn_msg (IndexError m) = m"
| "exn_msg (AttributeError m) = m"
| "exn_msg (LibraryError m) = m"

subsection \<open>Characters\<close>

definition is_digit :: "char \<Rightarrow> bool" where
  \<comment> \<open>\<open>\d\<close>: below code point 256 the decimal digits are \<open>0\<close> to \<open>9\<close>\<close>
  "is_digit c = (c \<in> set ''0123456789'')"

definition is_space :: "char \<Rightarrow> bool" where
  \<comment> \<open>\<open>\s\<close> on a \<open>str\<close> pattern: the code points below 256 with \<open>str.isspace\<close>\<close>
  "is_space c = (c \<in> set [CHR 0x09, CHR 0x0A, CHR 0x0B, CHR 0x0C, CHR 0x0D,
                            CHR 0x1C, CHR 0x1D, CHR 0x1E, CHR 0x1F, CHR 0x20,
                            CHR 0x85, CHR 0xA0])"

definition py_lower :: "char \<Rightarrow> char" where
  \<comment> \<open>the lower-case mapping of \<open>re.IGNORECASE\<close> below code point 256:
      \<open>A\<close>-\<open>Z\<close> and \<open>0xC0\<close>-\<open>0xDE\<close> (without \<open>0xD7\<close>) move up by 32\<close>
  "py_lower c =
     (let n = (of_char c :: nat)
      in if (65 \<le> n \<and> n \<le> 90) \<or> (192 \<le> n \<and> n \<le> 222 \<and> n \<noteq> 215)
         then char_of (n + 32) else c)"

subsection \<open>ValueNormalizer: \<open>PDFProcessor.clean_value\<close>\<close>

definition digits_val :: "string \<Rightarrow> nat" where
  "digits_val ds = foldl (\<lambda>a c. 10 * a + (of_char c - 48)) 0 ds"

text \<open>
  \<open>float(s)\<close> for a string \<open>s\<close> of decimal digits and dots, the only strings
  \<open>clean_value\<close> passes to it (lemma \<open>cleaned_chars\<close> below): digits, at most one dot,
  at least one digit; anything else raises \<open>ValueError\<close>.
\<close>

definition py_float :: "string \<Rightarrow> exn + rat" where
  "py_float s =
     (let ip = takeWhile is_digit s; r = dropWhile is_digit s
      in case r of
           [] \<Rightarrow> if ip = [] then Inl (ValueError s) else Inr (of_nat (digits_val ip))
         | c # fp \<Rightarrow>
             if c = CHR ''.'' \<and> list_all is_digit fp \<and> (ip \<noteq> [] \<or> fp \<noteq> [])
             then Inr (of_nat (digits_val (ip @ fp)) / 10 ^ length fp)
             else Inl (ValueError s))"

definition strip_value :: "string \<Rightarrow> string" where
  \<comment> \<open>\<open>re.sub(r'[^\d.,]', '', value_str)\<close>\<close>
  "strip_value v = filter (\<lambda>c. is_digit c \<or> c = CHR ''.'' \<or> c = CHR '','') v"

definition str_remove :: "char \<Rightarrow> string \<Rightarrow> string" where
  \<comment> \<open>\<open>s.replace(c, '')\<close>\<close>
  "str_remove c s = filter (\<lambda>d. d \<noteq> c) s"

definition str_replace :: "char \<Rightarrow> char \<Rightarrow> string \<Rightarrow> string" where
  \<comment> \<open>\<open>s.replace(c, d)\<close> for single characters\<close>
  "str_replace c d s = map (\<lambda>x. if x = c then d else x) s"

definition disambiguate :: "string \<Rightarrow> string" where
  \<comment> \<open>lines 81-84: \<open>1.234,56 -> 1234.56\<close>\<close>
  "disambiguate cleaned =
     (if CHR '','' \<in> set cleaned \<and> CHR ''.'' \<in> set cleaned
      then str_replace (CHR '','') (CHR ''.'') (str_remove (CHR ''.'') cleaned)
      else if CHR '','' \<in> set cleaned
      then str_replace (CHR '','') (CHR ''.'') cleaned
      else cleaned)"

definition clean_value :: "string option \<Rightarrow> exn + rat option" where
  "clean_value value_str =
     (case value_str of
        None \<Rightarrow> Inr None
      | Some v \<Rightarrow>
          if v = [] then Inr None
          else (case py_float (disambiguate (strip_value v)) of
                  Inr x \<Rightarrow> Inr (Some x)
                | Inl (ValueError m) \<Rightarrow> Inr None
                | Inl e \<Rightarrow> Inl e))"

text \<open>
  The normalizer as the specification words it: strip, disambiguate, parse; absent on a
  parse failure.
\<close>

definition normalize_spec :: "string \<Rightarrow> rat option" where
  "normalize_spec raw =
     (let stripped = filter (\<lambda>c. is_digit c \<or> c = CHR ''.'' \<or> c = CHR '','') raw;
          has_dot = (CHR ''.'' \<in> set stripped);
          has_comma = (CHR '','' \<in> set stripped);
          s = (if has_dot \<and> has_comma
               then map (\<lambda>c. if c = CHR '','' then CHR ''.'' else c)
                      (filter (\<lambda>c. c \<noteq> CHR ''.'') stripped)
               else if has_comma
               then map (\<lambda>c. if c = CHR '','' then CHR ''.'' else c) stripped
               else stripped)
      in case py_float s of Inr x \<Rightarrow> Some x | Inl e \<Rightarrow> None)"

subsection \<open>Regular expressions: the part of \<open>re\<close> that \<open>Patterns\<close> uses\<close>

text \<open>
  A pattern is modelled by its syntax tree. \<open>Cls\<close> is a character class \<open>[...]\<close>
  (\<open>\d\<close> is \<open>Cls [CDigit]\<close>, \<open>\s\<close> is \<open>Cls [CSpace]\<close>), \<open>Rep lo hi r\<close> is the greedy
  repetition \<open>r{lo,hi}\<close> (\<open>*\<close> is \<open>Rep 0 None\<close>, \<open>+\<close> is \<open>Rep 1 None\<close>, \<open>?\<close> is
  \<open>Rep 0 (Some 1)\<close>), \<open>Grp n r\<close> is the capturing group number \<open>n\<close>; a non-capturing
  group \<open>(?:r)\<close> is \<open>r\<close> itself.
\<close>

datatype citem = CChar char | CDigit | CSpace

datatype rx =
    Lit char
  | Cls "citem list"
  | Eps
  | Seq rx rx
  | Rep nat "nat option" rx
  | Grp nat rx

type_synonym captures = "(nat \<times> string) list"

text \<open>A matcher state: the text still to read, and the groups captured so far (newest first).\<close>

type_synonym mstate = "string \<times> captures"

definition chr_match :: "bool \<Rightarrow> char \<Rightarrow> char \<Rightarrow> bool" where
  \<comment> \<open>pattern character \<open>c\<close> against text character \<open>d\<close>; \<open>ci\<close> is \<open>re.IGNORECASE\<close>\<close>
  "chr_match ci c d = (if ci then py_lower c = py_lower d else c = d)"

fun item_match :: "bool \<Rightarrow> citem \<Rightarrow> char \<Rightarrow> bool" where
  "item_match ci (CChar c) d = chr_match ci c d"
| "item_match ci CDigit d = is_digit d"
| "item_match ci CSpace d = is_space d"

fun dec :: "nat option \<Rightarrow> nat option" where
  "dec None = None"
| "dec (Some n) = Some (n - 1)"

text \<open>
  Backtracking is a list of successes, the first the one the engine prefers. A greedy
  repetition first makes its \<open>lo\<close> mandatory rounds; then it prefers one more round
  (when \<open>hi\<close> allows it and the round moved forward in the text) to stopping. The fuel is
  the length of the text left, which bounds the number of rounds that move forward.
\<close>

fun rx_rep ::
  "(mstate \<Rightarrow> mstate list) \<Rightarrow> nat \<Rightarrow> nat option \<Rightarrow> nat \<Rightarrow> mstate \<Rightarrow> mstate list" where
  "rx_rep f (Suc lo) hi fuel st = concat (map (rx_rep f lo (dec hi) fuel) (f st))"
| "rx_rep f 0 hi 0 st = [st]"
| "rx_rep f 0 hi (Suc fuel) st =
     (if hi = Some 0 then [st]
      else concat (map (rx_rep f 0 (dec hi) fuel)
                     (filter (\<lambda>st'. length (fst st') < length (fst st)) (f st))) @ [st])"

fun rx_match :: "bool \<Rightarrow> rx \<Rightarrow> mstate \<Rightarrow> mstate list" where
  "rx_match ci (Lit c) (s, g) =
     (case s of [] \<Rightarrow> [] | d # t \<Rightarrow> if chr_match ci c d then [(t, g)] else [])"
| "rx_match ci (Cls items) (s, g) =
     (case s of [] \<Rightarrow> []
      | d # t \<Rightarrow> if list_ex (\<lambda>i. item_match ci i d) items then [(t, g)] else [])"
| "rx_match ci Eps st = [st]"
| "rx_match ci (Seq a b) st = concat (map (rx_match ci b) (rx_match ci a st))"
| "rx_match ci (Rep lo hi r) st = rx_rep (rx_match ci r) lo hi (length (fst st)) st"
| "rx_match ci (Grp n r) (s, g) =
     map (\<lambda>(t, g'). (t, (n, take (length s - length t) s) # g')) (rx_match ci r (s, g))"

text \<open>
  \<open>re.search(pattern, text, flags)\<close>: the leftmost start position with a match, and
  there the preferred match; the result is the match object, of which the program reads
  only the groups.
\<close>

fun re_search :: "bool \<Rightarrow> rx \<Rightarrow> string \<Rightarrow> captures option" where
  "re_search ci r [] =
     (case rx_match ci r ([], []) of [] \<Rightarrow> None | (t, g) # _ \<Rightarrow> Some g)"
| "re_search ci r (c # s) =
     (case rx_match ci r (c # s, []) of [] \<Rightarrow> re_search ci r s | (t, g) # _ \<Rightarrow> Some g)"

fun rx_groups :: "rx \<Rightarrow> nat list" where
  "rx_groups (Seq a b) = rx_groups a @ rx_groups b"
| "rx_groups (Rep lo hi r) = rx_groups r"
| "rx_groups (Grp n r) = n # rx_groups r"
| "rx_groups (Lit c) = []"
| "rx_groups (Cls items) = []"
| "rx_groups Eps = []"

definition match_group :: "rx \<Rightarrow> captures \<Rightarrow> nat \<Rightarrow> exn + string option" where
  \<comment> \<open>\<open>match.group(n)\<close>: \<open>IndexError\<close> when the pattern has no group \<open>n\<close>, \<open>None\<close>
      when the group took no part in the match\<close>
  "match_group p m n =
     (if n \<in> set (rx_groups p) then Inr (map_of m n)
      else Inl (IndexError ''no such group''))"

subsection \<open>FieldExtractor: \<open>PDFProcessor.find_pattern\<close>\<close>

text \<open>
  \<open>next((match.group(1) for pattern in patterns if (match := re.search(pattern, text,
  re.IGNORECASE))), None)\<close>: the generator is consumed up to its first element only.
\<close>

fun find_pattern :: "string \<Rightarrow> rx list \<Rightarrow> exn + string option" where
  "find_pattern text [] = Inr None"
| "find_pattern text (pattern # patterns) =
     (case re_search True pattern text of
        Some m \<Rightarrow> match_group pattern m 1
      | None \<Rightarrow> find_pattern text patterns)"

subsection \<open>\<open>class Patterns\<close>\<close>

definition rx_lits :: "string \<Rightarrow> rx" where
  "rx_lits s = foldr (\<lambda>c r. Seq (Lit c) r) s Eps"

definition rx_seqs :: "rx list \<Rightarrow> rx" where
  "rx_seqs rs = foldr Seq rs Eps"

definition rx_star :: "rx \<Rightarrow> rx" where
  "rx_star r = Rep 0 None r"

definition rx_plus :: "rx \<Rightarrow> rx" where
  "rx_plus r = Rep 1 None r"

definition rx_opt :: "rx \<Rightarrow> rx" where
  "rx_opt r = Rep 0 (Some 1) r"

definition rx_ws :: rx where
  \<comment> \<open>\<open>\s*\<close>\<close>
  "rx_ws = rx_star (Cls [CSpace])"

definition rx_digit :: rx where
  \<comment> \<open>\<open>\d\<close>\<close>
  "rx_digit = Cls [CDigit]"

definition rx_number_tail :: rx where
  \<comment> \<open>\<open>\s*#?\s*:?\s*(\d+)\<close>\<close>
  "rx_number_tail =
     rx_seqs [rx_ws, rx_opt (Lit (CHR ''#'')), rx_ws, rx_opt (Lit (CHR '':'')), rx_ws,
              Grp 1 (rx_plus rx_digit)]"

definition NUMBER :: "rx list" where
  \<open>NUMBER =
     [ \<comment> \<open>\<open>#\s*(\d+)\<close>\<close>
       rx_seqs [Lit (CHR ''#''), rx_ws, Grp 1 (rx_plus rx_digit)],
       \<comment> \<open>\<open>Invoice\s*#?\s*:?\s*(\d+)\<close>\<close>
       Seq (rx_lits ''Invoice'') rx_number_tail,
       \<comment> \<open>\<open>Fatura\s*#?\s*:?\s*(\d+)\<close>\<close>
       Seq (rx_lits ''Fatura'') rx_number_tail,
       \<comment> \<open>\<open>N[uu]mero\s*:?\s*(\d+)\<close>, the first member of the class being u with acute\<close>
       rx_seqs [Lit (CHR ''N''), Cls [CChar (CHR 0xFA), CChar (CHR ''u'')], rx_lits ''mero'',
                rx_ws, rx_opt (Lit (CHR '':'')), rx_ws, Grp 1 (rx_plus rx_digit)] ]\<close>

definition rx_date :: rx where
  \<comment> \<open>\<open>\d{1,2}[\/\-]\d{1,2}[\/\-]\d{4}\<close>\<close>
  "rx_date =
     rx_seqs [Rep 1 (Some 2) rx_digit, Cls [CChar (CHR ''/''), CChar (CHR ''-'')],
              Rep 1 (Some 2) rx_digit, Cls [CChar (CHR ''/''), CChar (CHR ''-'')],
              Rep 4 (Some 4) rx_digit]"

definition DATE :: "rx list" where
  \<open>DATE =
     [ \<comment> \<open>\<open>Date\s*:?\s*(\d{1,2}[\/\-]\d{1,2}[\/\-]\d{4})\<close>\<close>
       rx_seqs [rx_lits ''Date'', rx_ws, rx_opt (Lit (CHR '':'')), rx_ws, Grp 1 rx_date],
       \<comment> \<open>\<open>Data\s*:?\s*(\d{1,2}[\/\-]\d{1,2}[\/\-]\d{4})\<close>\<close>
       rx_seqs [rx_lits ''Data'', rx_ws, rx_opt (Lit (CHR '':'')), rx_ws, Grp 1 rx_date],
       \<comment> \<open>\<open>(\d{1,2}[\/\-]\d{1,2}[\/\-]\d{4})\<close>\<close>
       Grp 1 rx_date ]\<close>

definition rx_amount :: rx where
  \<comment> \<open>\<open>[\d.,]+\<close>\<close>
  "rx_amount = rx_plus (Cls [CDigit, CChar (CHR ''.''), CChar (CHR '','')])"

definition rx_currency_tail :: rx where
  \<comment> \<open>\<open>\s*:?\s*R?\$?\s*([\d.,]+)\<close>\<close>
  "rx_currency_tail =
     rx_seqs [rx_ws, rx_opt (Lit (CHR '':'')), rx_ws, rx_opt (Lit (CHR ''R'')),
              rx_opt (Lit (CHR ''$'')), rx_ws, Grp 1 rx_amount]"

definition VALUE :: "rx list" where
  \<open>VALUE =
     [ \<comment> \<open>\<open>Total\s*:?\s*R?\$?\s*([\d.,]+)\<close>\<close>
       Seq (rx_lits ''Total'') rx_currency_tail,
       \<comment> \<open>\<open>Valor\s*:?\s*R?\$?\s*([\d.,]+)\<close>\<close>
       Seq (rx_lits ''Valor'') rx_currency_tail,
       \<comment> \<open>\<open>R\$\s*([\d.,]+)\<close>\<close>
       rx_seqs [Lit (CHR ''R''), Lit (CHR ''$''), rx_ws, Grp 1 rx_amount],
       \<comment> \<open>\<open>(\d{1,3}(?:\.\d{3})*,\d{2})\<close>\<close>
       Grp 1 (rx_seqs [Rep 1 (Some 3) rx_digit,
                       rx_star (rx_seqs [Lit (CHR ''.''), Rep 3 (Some 3) rx_digit]),
                       Lit (CHR '',''), Rep 2 (Some 2) rx_digit]) ]\<close>

text \<open>
  The two patterns of the ordering example: a label-qualified number
  \<open>Invoice\s*#?\s*:?\s*(\d+)\<close> (the second entry of \<open>NUMBER\<close>) and a bare number
  \<open>(\d+)\<close>.
\<close>

definition label_qualified :: rx where
  "label_qualified = Seq (rx_lits ''Invoice'') rx_number_tail"

definition bare_number :: rx where
  "bare_number = Grp 1 (rx_plus rx_digit)"

subsection \<open>Paths and configuration\<close>

text \<open>
  A \<open>Path\<close> is the list of its components; \<open>p / name\<close> appends a component and
  \<open>p.name\<close> is the last one.
\<close>

type_synonym path = "string list"

definition path_name :: "path \<Rightarrow> string" where
  "path_name p = (if p = [] then [] else last p)"

text \<open>
  \<open>HEADERS\<close> is a dictionary from a cell coordinate (\<open>A1\<close>) to the header text; it is
  read in insertion order by \<open>items()\<close>.
\<close>

record Config =
  PDF_DIR :: path
  EXCEL_DIR :: path
  HEADERS :: "(string \<times> string) list"

definition default_config :: Config where
  "default_config =
     \<lparr> PDF_DIR = [''C:'', ''Users'', ''Felipe'', ''Documents'', ''Projects'', ''python_auto'',
                  ''invoices_pdf''],
       EXCEL_DIR = [''C:'', ''Users'', ''Felipe'', ''Documents'', ''Projects'', ''python_auto'',
                    ''excel_sheets''],
       HEADERS = [(''A1'', ''N'' @ [CHR 0xFA] @ ''mero da fatura''),
                  (''B1'', ''Data de emiss'' @ [CHR 0xE3] @ ''o''),
                  (''C1'', ''Valor da fatura''),
                  (''D1'', ''Nome do arquivo''),
                  (''E1'', ''Status'')] \<rparr>"

subsection \<open>DocumentRecord: \<open>InvoiceData\<close>\<close>

text \<open>
  The status is a string in the source: \<open>Processado\<close> (Processed), \<open>Erro: PDF vazio\<close>
  (EmptyDocument) and \<open>Erro: \<close> followed by the exception text (ExtractionError). The
  field \<open>value\<close> is written \<open>value'\<close>.
\<close>

record InvoiceData =
  filename :: string
  number :: "string option"
  date :: "string option"
  value' :: "rat option"
  status :: string

definition Processed :: string where
  "Processed = ''Processado''"

definition EmptyDocument :: string where
  "EmptyDocument = ''Erro: PDF vazio''"

definition ExtractionError :: "string \<Rightarrow> string" where
  "ExtractionError m = ''Erro: '' @ m"

definition new_invoice :: "string \<Rightarrow> InvoiceData" where
  \<comment> \<open>\<open>InvoiceData(name)\<close> with the defaults of the dataclass\<close>
  "new_invoice name =
     \<lparr> filename = name, number = None, date = None, value' = None, status = Processed \<rparr>"

text \<open>A worksheet cell holds a string or a number.\<close>

datatype cell = CStr string | CNum rat

definition not_found :: string where
  \<comment> \<open>the text \<open>Nao encontrado\<close>, its second letter being a with tilde\<close>
  "not_found = ''N'' @ [CHR 0xE3] @ ''o encontrado''"

definition str_or :: "string option \<Rightarrow> string \<Rightarrow> cell" where
  \<comment> \<open>\<open>x or d\<close> for an optional string: \<open>None\<close> and the empty string are false\<close>
  "str_or x d = (case x of None \<Rightarrow> CStr d | Some s \<Rightarrow> if s = [] then CStr d else CStr s)"

definition float_or :: "rat option \<Rightarrow> string \<Rightarrow> cell" where
  \<comment> \<open>\<open>x or d\<close> for an optional float: \<open>None\<close> and \<open>0.0\<close> are false\<close>
  "float_or x d = (case x of None \<Rightarrow> CStr d | Some v \<Rightarrow> if v = 0 then CStr d else CNum v)"

definition to_row :: "InvoiceData \<Rightarrow> cell list" where
  "to_row self =
     [ str_or (number self) not_found,
       str_or (date self) not_found,
       float_or (value' self) not_found,
       CStr (filename self),
       CStr (status self) ]"

subsection \<open>The workbook of openpyxl\<close>

record Workbook =
  title :: string
  cells :: "nat \<times> nat \<rightharpoonup> cell"

definition new_workbook :: Workbook where
  \<comment> \<open>\<open>Workbook()\<close> and \<open>ws.title = "Invoices"\<close>; cells are addressed by (row, column)\<close>
  "new_workbook = \<lparr> title = ''Invoices'', cells = Map.empty \<rparr>"

definition is_upper :: "char \<Rightarrow> bool" where
  "is_upper c = (c \<in> set ''ABCDEFGHIJKLMNOPQRSTUVWXYZ'')"

definition col_index :: "string \<Rightarrow> nat" where
  \<comment> \<open>column letters to the column number: \<open>A\<close> is 1, \<open>Z\<close> is 26, \<open>AA\<close> is 27\<close>
  "col_index ls = foldl (\<lambda>a c. 26 * a + (of_char c - 64)) 0 ls"

definition cell_coord :: "string \<Rightarrow> exn + nat \<times> nat" where
  \<comment> \<open>the coordinate of \<open>ws[coordinate] = value\<close>: upper-case column letters, then the
      row number in digits, as in \<open>A1\<close>; the result is (row, column)\<close>
  "cell_coord s =
     (let ls = takeWhile is_upper s; ds = dropWhile is_upper s
      in if ls \<noteq> [] \<and> ds \<noteq> [] \<and> list_all is_digit ds \<and> 0 < digits_val ds
         then Inr (digits_val ds, col_index ls)
         else Inl (LibraryError (''Invalid cell coordinates '' @ s)))"

subsection \<open>The world outside the program\<close>

text \<open>
  What the collaborators answer: the file system, pdfplumber (for a path, either an
  exception or what \<open>extract_text()\<close> gives for each page, \<open>None\<close> for a page without
  text), openpyxl (whether a value is refused when written to a cell, whether saving to a
  path fails) and the clock, already formatted by \<open>strftime\<close>.
\<close>

record world =
  dir_exists :: "path \<Rightarrow> bool"
  mkdir_err :: "path \<Rightarrow> exn option"
  glob_pdf :: "path \<Rightarrow> exn + path list"
  pdf_pages :: "path \<Rightarrow> exn + string option list"
  cell_err :: "cell \<Rightarrow> exn option"
  save_err :: "Workbook \<Rightarrow> path \<Rightarrow> exn option"
  now_stamp :: string

text \<open>The lines the program prints, in order; \<open>print\<close> itself is taken never to fail.\<close>

datatype event =
    ReadError string string
  | DebugLine string "string option" "string option" "rat option"
  | CreateError string
  | DirMissing path
  | NoPdfFound
  | Processing nat
  | ProcessError string
  | ExcelSaved path
  | SaveError string
  | FallbackSaved path

subsection \<open>BatchProcessor: \<open>extract_text\<close> and \<open>process_pdf\<close>\<close>

fun str_join :: "string \<Rightarrow> string list \<Rightarrow> string" where
  "str_join sep [] = []"
| "str_join sep [x] = x"
| "str_join sep (x # y # ys) = x @ sep @ str_join sep (y # ys)"

definition extract_text :: "world \<Rightarrow> path \<Rightarrow> string \<times> event list" where
  "extract_text w pdf_path =
     (case pdf_pages w pdf_path of
        Inr pages \<Rightarrow>
          (str_join [CHR 0x0A] (map (\<lambda>t. case t of None \<Rightarrow> [] | Some s \<Rightarrow> s) pages), [])
      | Inl e \<Rightarrow> ([], [ReadError (path_name pdf_path) (exn_msg e)]))"

definition failed :: "InvoiceData \<Rightarrow> exn \<Rightarrow> InvoiceData" where
  \<comment> \<open>\<open>except Exception as e: invoice.status = f"Erro: {e}"\<close>\<close>
  "failed invoice e = invoice\<lparr>status := ExtractionError (exn_msg e)\<rparr>"

definition process_pdf :: "world \<Rightarrow> path \<Rightarrow> InvoiceData \<times> event list" where
  "process_pdf w pdf_path =
     (let invoice = new_invoice (path_name pdf_path);
          (text, out) = extract_text w pdf_path
      in if text = [] then (invoice\<lparr>status := EmptyDocument\<rparr>, out)
         else
           (case find_pattern text NUMBER of
              Inl e \<Rightarrow> (failed invoice e, out)
            | Inr n \<Rightarrow>
                (let invoice = invoice\<lparr>number := n\<rparr>
                 in case find_pattern text DATE of
                      Inl e \<Rightarrow> (failed invoice e, out)
                    | Inr d \<Rightarrow>
                        (let invoice = invoice\<lparr>date := d\<rparr>
                         in case find_pattern text VALUE of
                              Inl e \<Rightarrow> (failed invoice e, out)
                            | Inr raw_value \<Rightarrow>
                                (case clean_value raw_value of
                                   Inl e \<Rightarrow> (failed invoice e, out)
                                 | Inr v \<Rightarrow>
                                     (invoice\<lparr>value' := v\<rparr>,
                                      out @ [DebugLine (path_name pdf_path) n d v]))))))"

text \<open>\<open>[self.process_pdf(pdf) for pdf in pdf_files]\<close>, with the lines printed on the way.\<close>

fun process_all :: "world \<Rightarrow> path list \<Rightarrow> InvoiceData list \<times> event list" where
  "process_all w [] = ([], [])"
| "process_all w (pdf # pdfs) =
     (let (invoice, out) = process_pdf w pdf;
          (invoices, out') = process_all w pdfs
      in (invoice # invoices, out @ out'))"

subsection \<open>ReportBuilder: \<open>create_excel\<close>\<close>

text \<open>
  The worksheet is written cell by cell. Each loop returns the workbook as written so far
  together with the exception that stopped it, if any, since the handler of
  \<open>create_excel\<close> returns the workbook in the state the exception left it.
\<close>

fun write_headers :: "world \<Rightarrow> (string \<times> string) list \<Rightarrow> Workbook \<Rightarrow> Workbook \<times> exn option" where
  "write_headers w [] wb = (wb, None)"
| "write_headers w ((coordinate, header) # hs) wb =
     (case cell_coord coordinate of
        Inl e \<Rightarrow> (wb, Some e)
      | Inr rc \<Rightarrow>
          (case cell_err w (CStr header) of
             Some e \<Rightarrow> (wb, Some e)
           | None \<Rightarrow> write_headers w hs (wb\<lparr>cells := (cells wb)(rc \<mapsto> CStr header)\<rparr>)))"

fun write_row :: "world \<Rightarrow> nat \<Rightarrow> nat \<Rightarrow> cell list \<Rightarrow> Workbook \<Rightarrow> Workbook \<times> exn option" where
  "write_row w i j [] wb = (wb, None)"
| "write_row w i j (v # vs) wb =
     (case cell_err w v of
        Some e \<Rightarrow> (wb, Some e)
      | None \<Rightarrow> write_row w i (Suc j) vs (wb\<lparr>cells := (cells wb)((i, j) \<mapsto> v)\<rparr>))"

fun write_rows :: "world \<Rightarrow> nat \<Rightarrow> InvoiceData list \<Rightarrow> Workbook \<Rightarrow> Workbook \<times> exn option" where
  "write_rows w i [] wb = (wb, None)"
| "write_rows w i (invoice # invoices) wb =
     (case write_row w i 1 (to_row invoice) wb of
        (wb', Some e) \<Rightarrow> (wb', Some e)
      | (wb', None) \<Rightarrow> write_rows w (Suc i) invoices wb')"

definition fill_sheet :: "world \<Rightarrow> Config \<Rightarrow> InvoiceData list \<Rightarrow> Workbook \<times> exn option" where
  \<comment> \<open>the body of the \<open>try\<close> of \<open>create_excel\<close>, lines 117-128\<close>
  "fill_sheet w config invoices =
     (case write_headers w (HEADERS config) new_workbook of
        (wb, Some e) \<Rightarrow> (wb, Some e)
      | (wb, None) \<Rightarrow> write_rows w 2 invoices wb)"

definition create_excel :: "world \<Rightarrow> Config \<Rightarrow> InvoiceData list \<Rightarrow> Workbook option \<times> event list" where
  \<comment> \<open>\<open>return wb\<close> stands in the handler only: without an exception the function ends
      without a \<open>return\<close> and gives \<open>None\<close>\<close>
  "create_excel w config invoices =
     (case fill_sheet w config invoices of
        (wb, Some e) \<Rightarrow> (Some wb, [CreateError (exn_msg e)])
      | (wb, None) \<Rightarrow> (None, []))"

subsection \<open>\<open>PDFProcessor.run\<close>\<close>

text \<open>
  The first \<open>try\<close> of \<open>run\<close> either returns (\<open>Return\<close>) or reaches its end
  (\<open>Proceed\<close>) with \<open>wb\<close>, \<open>timestamp\<close> and \<open>excel_path\<close> bound.
\<close>

datatype 'a flow = Return bool | Proceed 'a

definition report_name :: "string \<Rightarrow> string" where
  \<comment> \<open>\<open>f'invoices_{timestamp}.xlsx'\<close>\<close>
  "report_name timestamp = ''invoices_'' @ timestamp @ ''.xlsx''"

definition run_prepare ::
  "world \<Rightarrow> Config \<Rightarrow> (Workbook option \<times> string \<times> path) flow \<times> event list" where
  "run_prepare w config =
     (if \<not> dir_exists w (PDF_DIR config) then (Return False, [DirMissing (PDF_DIR config)])
      else
        (case mkdir_err w (EXCEL_DIR config) of
           Some e \<Rightarrow> (Return False, [ProcessError (exn_msg e)])
         | None \<Rightarrow>
             (case glob_pdf w (PDF_DIR config) of
                Inl e \<Rightarrow> (Return False, [ProcessError (exn_msg e)])
              | Inr pdf_files \<Rightarrow>
                  if pdf_files = [] then (Return False, [NoPdfFound])
                  else
                    (let (invoices, out) = process_all w pdf_files;
                         (wb, out') = create_excel w config invoices;
                         timestamp = now_stamp w;
                         excel_path = EXCEL_DIR config @ [report_name timestamp]
                     in (Proceed (wb, timestamp, excel_path),
                         [Processing (length pdf_files)] @ out @ out')))))"

definition no_save_attribute :: string where
  "no_save_attribute =
     [CHR 0x27] @ ''NoneType'' @ [CHR 0x27] @ '' object has no attribute '' @
     [CHR 0x27] @ ''save'' @ [CHR 0x27]"

definition wb_save :: "world \<Rightarrow> Workbook option \<Rightarrow> path \<Rightarrow> exn option" where
  \<comment> \<open>\<open>wb.save(path)\<close>: the exception raised, or \<open>None\<close> when the file is written\<close>
  "wb_save w wb p =
     (case wb of
        None \<Rightarrow> Some (AttributeError no_save_attribute)
      | Some book \<Rightarrow> save_err w book p)"

definition run_save ::
  "world \<Rightarrow> Workbook option \<times> string \<times> path \<Rightarrow> (exn + bool) \<times> event list" where
  \<comment> \<open>the second \<open>try\<close> of \<open>run\<close>, lines 161-171; an exception raised in the handler
      leaves \<open>run\<close>\<close>
  "run_save w st =
     (case st of (wb, timestamp, excel_path) \<Rightarrow>
        (case wb_save w wb excel_path of
           None \<Rightarrow> (Inr True, [ExcelSaved excel_path])
         | Some e \<Rightarrow>
             (let fallback = [report_name timestamp]
              in case wb_save w wb fallback of
                   None \<Rightarrow> (Inr True, [SaveError (exn_msg e), FallbackSaved fallback])
                 | Some e' \<Rightarrow> (Inl e', [SaveError (exn_msg e)]))))"

definition run :: "world \<Rightarrow> Config \<Rightarrow> (exn + bool) \<times> event list" where
  "run w config =
     (case run_prepare w config of
        (Return b, out) \<Rightarrow> (Inr b, out)
      | (Proceed st, out) \<Rightarrow> (case run_save w st of (r, out') \<Rightarrow> (r, out @ out')))"

subsection \<open>Sample documents and worlds\<close>

text \<open>
  A batch of three documents: the first reads as an invoice, the second has one page
  without text, the third cannot be opened. Saving works in the current directory only.
\<close>

definition invoice_text :: string where
  "invoice_text = ''Invoice #: 100 Date: 01/02/2024 Total: R$ 1.000,00''"

definition doc1 :: path where
  "doc1 = [''invoices_pdf'', ''doc1.pdf'']"

definition doc2 :: path where
  "doc2 = [''invoices_pdf'', ''doc2.pdf'']"

definition doc3 :: path where
  "doc3 = [''invoices_pdf'', ''doc3.pdf'']"

definition sample_pages :: "path \<Rightarrow> exn + string option list" where
  "sample_pages p =
     (if p = doc1 then Inr [Some invoice_text]
      else if p = doc2 then Inr [None]
      else Inl (LibraryError ''No /Root object''))"

definition sample_world :: world where
  "sample_world =
     \<lparr> dir_exists = (\<lambda>p. True),
       mkdir_err = (\<lambda>p. None),
       glob_pdf = (\<lambda>p. Inr [doc1, doc2, doc3]),
       pdf_pages = sample_pages,
       cell_err = (\<lambda>v. None),
       save_err = (\<lambda>wb p. if length p = 1 then None
                            else Some (LibraryError ''No such file or directory'')),
       now_stamp = ''20240102_030405'' \<rparr>"

text \<open>The same world with a workbook that refuses every write to a cell.\<close>

definition refusing_world :: world where
  "refusing_world = sample_world\<lparr>cell_err := (\<lambda>v. Some (LibraryError ''read-only''))\<rparr>"

text \<open>A document whose only page reads \<open>Total: 0,00\<close>, and one without any field.\<close>

definition zero_world :: world where
  "zero_world = sample_world\<lparr>pdf_pages := (\<lambda>p. Inr [Some ''Total: 0,00''])\<rparr>"



section \<open>Properties\<close>

subsection \<open>ValueNormalizer\<close>

lemma py_float_err: "py_float s = Inl e \<Longrightarrow> e = ValueError s"
  by (auto simp: py_float_def Let_def split: list.splits if_splits)

lemma cleaned_chars:
  "set (disambiguate (strip_value v)) \<subseteq> {c. is_digit c} \<union> {CHR ''.''}"
  by (auto simp: disambiguate_def strip_value_def str_remove_def str_replace_def
           split: if_splits)

lemma clean_value_total: "\<exists>r. clean_value v = Inr r"
  by (auto simp: clean_value_def split: option.splits sum.splits exn.splits
           dest: py_float_err)

lemma clean_value_spec: "clean_value (Some raw) = Inr (normalize_spec raw)"
proof (cases "raw = []")
  case True
  then show ?thesis
    by (simp add: clean_value_def normalize_spec_def py_float_def)
next
  case False
  have same: "normalize_spec raw =
      (case py_float (disambiguate (strip_value raw)) of Inr x \<Rightarrow> Some x | Inl e \<Rightarrow> None)"
    by (simp add: normalize_spec_def disambiguate_def strip_value_def str_remove_def
          str_replace_def Let_def)
  show ?thesis
  proof (cases "py_float (disambiguate (strip_value raw))")
    case (Inl e)
    then have "e = ValueError (disambiguate (strip_value raw))"
      by (rule py_float_err)
    with Inl False same show ?thesis
      by (simp add: clean_value_def)
  next
    case (Inr x)
    with False same show ?thesis
      by (simp add: clean_value_def)
  qed
qed

lemma cleaned_brazilian: "disambiguate (strip_value ''1.234,56'') = ''1234.56''"
  by (simp add: disambiguate_def strip_value_def str_remove_def str_replace_def is_digit_def)

lemma cleaned_comma_only: "disambiguate (strip_value ''1234,56'') = ''1234.56''"
  by (simp add: disambiguate_def strip_value_def str_remove_def str_replace_def is_digit_def)

lemma cleaned_dot_only: "disambiguate (strip_value ''1.234'') = ''1.234''"
  by (simp add: disambiguate_def strip_value_def str_remove_def str_replace_def is_digit_def)

lemma cleaned_letters: "disambiguate (strip_value ''abc'') = []"
  by (simp add: disambiguate_def strip_value_def is_digit_def)

lemma cleaned_two_dots: "disambiguate (strip_value ''1.2.3'') = ''1.2.3''"
  by (simp add: disambiguate_def strip_value_def is_digit_def)

lemma float_1234_56: "py_float ''1234.56'' = Inr (123456 / 100)"
  by (simp add: py_float_def is_digit_def digits_val_def)

lemma float_1_234: "py_float ''1.234'' = Inr (1234 / 1000)"
  by (simp add: py_float_def is_digit_def digits_val_def)

lemma float_empty: "py_float [] = Inl (ValueError [])"
  by (simp add: py_float_def)

lemma float_two_dots: "py_float ''1.2.3'' = Inl (ValueError ''1.2.3'')"
  by (simp add: py_float_def is_digit_def)

text \<open>
  C5. For every raw string, \<open>clean_value\<close> strips every character that is not a digit,
  a dot or a comma; with both separators present it removes the dots and turns the commas
  into dots, with only commas it turns them into dots, otherwise it leaves the string as
  it is; then it parses the result as a decimal number (that is \<open>normalize_spec\<close>).
  In particular \<open>1.234,56\<close> and \<open>1234,56\<close> give 1234.56, and \<open>1.234\<close> gives 1.234,
  not 1234.
\<close>

theorem clean_value_normalizes:
  "clean_value (Some raw) = Inr (normalize_spec raw)
   \<and> clean_value (Some ''1.234,56'') = Inr (Some (123456 / 100))
   \<and> clean_value (Some ''1234,56'') = Inr (Some (123456 / 100))
   \<and> clean_value (Some ''1.234'') = Inr (Some (1234 / 1000))
   \<and> clean_value (Some ''1.234'') \<noteq> Inr (Some 1234)"
proof -
  have a: "clean_value (Some ''1.234,56'') = Inr (Some (123456 / 100))"
    by (simp add: clean_value_def cleaned_brazilian float_1234_56)
  have b: "clean_value (Some ''1234,56'') = Inr (Some (123456 / 100))"
    by (simp add: clean_value_def cleaned_comma_only float_1234_56)
  have c: "clean_value (Some ''1.234'') = Inr (Some (1234 / 1000))"
    by (simp add: clean_value_def cleaned_dot_only float_1_234)
  have d: "clean_value (Some ''1.234'') \<noteq> Inr (Some 1234)"
    by (simp add: clean_value_def cleaned_dot_only float_1_234)
  from clean_value_spec a b c d show ?thesis by blast
qed

text \<open>
  C9. \<open>clean_value\<close> returns absent for an absent and for an empty input, returns
  absent when the disambiguated string does not parse, and never raises: it returns a
  value for every input. In particular the empty string and \<open>abc\<close> give absent.
\<close>

theorem clean_value_never_raises:
  "clean_value None = Inr None
   \<and> clean_value (Some []) = Inr None
   \<and> (py_float (disambiguate (strip_value v)) = Inl e \<longrightarrow> clean_value (Some v) = Inr None)
   \<and> (\<exists>r. clean_value w = Inr r)
   \<and> clean_value (Some ''abc'') = Inr None"
proof -
  have a: "clean_value None = Inr None" "clean_value (Some []) = Inr None"
    by (simp_all add: clean_value_def)
  have b: "py_float (disambiguate (strip_value v)) = Inl e \<longrightarrow> clean_value (Some v) = Inr None"
    by (auto simp: clean_value_def dest: py_float_err)
  have c: "clean_value (Some ''abc'') = Inr None"
    by (simp add: clean_value_def cleaned_letters float_empty)
  from a b c clean_value_total show ?thesis by blast
qed

theorem clean_value_never_raises_witness:
  "py_float (disambiguate (strip_value ''1.2.3'')) = Inl (ValueError ''1.2.3'')
   \<and> clean_value (Some ''1.2.3'') = Inr None"
  using clean_value_never_raises [of "''1.2.3''" "ValueError ''1.2.3''" None]
  by (simp add: cleaned_two_dots float_two_dots)

subsection \<open>FieldExtractor\<close>

lemma find_pattern_total:
  "\<forall>p\<in>set patterns. 1 \<in> set (rx_groups p) \<Longrightarrow> \<exists>r. find_pattern text patterns = Inr r"
  by (induction patterns) (auto simp: match_group_def split: option.splits)

lemma find_pattern_no_match:
  "\<forall>p\<in>set patterns. re_search True p text = None \<Longrightarrow> find_pattern text patterns = Inr None"
  by (induction patterns) auto

lemma find_pattern_first_match:
  "\<forall>q\<in>set pre. re_search True q text = None \<Longrightarrow> re_search True p text = Some m \<Longrightarrow>
   find_pattern text (pre @ p # post) = match_group p m 1"
  by (induction pre) auto

lemma rx_groups_seqs: "rx_groups (rx_seqs rs) = concat (map rx_groups rs)"
  by (induction rs) (auto simp: rx_seqs_def)

lemma rx_groups_lits: "rx_groups (rx_lits s) = []"
  by (induction s) (auto simp: rx_lits_def)

lemma NUMBER_groups: "\<forall>p\<in>set NUMBER. 1 \<in> set (rx_groups p)"
  by (simp add: NUMBER_def rx_number_tail_def rx_groups_seqs rx_groups_lits)

lemma DATE_groups: "\<forall>p\<in>set DATE. 1 \<in> set (rx_groups p)"
  by (simp add: DATE_def rx_groups_seqs rx_groups_lits)

lemma VALUE_groups: "\<forall>p\<in>set VALUE. 1 \<in> set (rx_groups p)"
  by (simp add: VALUE_def rx_currency_tail_def rx_groups_seqs rx_groups_lits)

lemma example_groups: "\<forall>p\<in>set [label_qualified, bare_number]. 1 \<in> set (rx_groups p)"
  by (simp add: label_qualified_def bare_number_def rx_number_tail_def rx_groups_seqs rx_groups_lits)

lemma search_label: "re_search True label_qualified ''Ref 200 Invoice #: 100'' = Some [(1, ''100'')]"
  by code_simp

lemma search_bare: "re_search True bare_number ''Ref 200 Invoice #: 100'' = Some [(1, ''200'')]"
  by code_simp

lemma search_label_none: "re_search True label_qualified ''Ref 200'' = None"
  by code_simp

lemma find_example: "find_pattern ''Ref 200 Invoice #: 100'' [label_qualified, bare_number] = Inr (Some ''100'')"
  by code_simp

lemma find_example_swapped: "find_pattern ''Ref 200 Invoice #: 100'' [bare_number, label_qualified] = Inr (Some ''200'')"
  by code_simp

text \<open>
  C6, counterexample. The claim is made for every ordered pattern list and says that the
  extractor never raises. A pattern without a capturing group, here the pattern \<open>a\<close>,
  matches the text \<open>a\<close>, and \<open>match.group(1)\<close> then raises \<open>IndexError\<close>.
\<close>

theorem find_pattern_raises_counterexample:
  "find_pattern ''a'' [Lit (CHR ''a'')] = Inl (IndexError ''no such group'')"
  by code_simp

text \<open>
  C6, amended. For every text and every ordered pattern list whose patterns each have a
  capturing group 1, \<open>find_pattern\<close> returns a value and never raises; it returns
  absent when no pattern matches under a case-insensitive search of the whole text; and
  when the list is \<open>pre @ p # post\<close>, no pattern of \<open>pre\<close> matches and \<open>p\<close> matches,
  it returns group 1 of that match of \<open>p\<close>, whatever \<open>post\<close> holds. In particular the text
  \<open>Ref 200 Invoice #: 100\<close> with the list [label-qualified, bare-number] gives \<open>100\<close>.
\<close>

theorem find_pattern_in_order:
  assumes "\<forall>p\<in>set patterns. 1 \<in> set (rx_groups p)"
  shows "(\<exists>r. find_pattern text patterns = Inr r)
    \<and> ((\<forall>p\<in>set patterns. re_search True p text = None) \<longrightarrow> find_pattern text patterns = Inr None)
    \<and> (patterns = pre @ p # post \<and> (\<forall>q\<in>set pre. re_search True q text = None)
         \<and> re_search True p text = Some m
       \<longrightarrow> find_pattern text patterns = Inr (map_of m 1))
    \<and> find_pattern ''Ref 200 Invoice #: 100'' [label_qualified, bare_number] = Inr (Some ''100'')"
proof -
  have a: "\<exists>r. find_pattern text patterns = Inr r"
    using assms by (rule find_pattern_total)
  have b: "(\<forall>p\<in>set patterns. re_search True p text = None) \<longrightarrow> find_pattern text patterns = Inr None"
    by (simp add: find_pattern_no_match)
  have c: "patterns = pre @ p # post \<and> (\<forall>q\<in>set pre. re_search True q text = None)
         \<and> re_search True p text = Some m
       \<longrightarrow> find_pattern text patterns = Inr (map_of m 1)"
  proof (intro impI, elim conjE)
    assume eq: "patterns = pre @ p # post"
      and pre: "\<forall>q\<in>set pre. re_search True q text = None"
      and hit: "re_search True p text = Some m"
    from eq assms have "1 \<in> set (rx_groups p)" by simp
    then have "match_group p m 1 = Inr (map_of m 1)" by (simp add: match_group_def)
    with find_pattern_first_match [OF pre hit, of post] eq show "find_pattern text patterns = Inr (map_of m 1)"
      by simp
  qed
  from a b c find_example show ?thesis by blast
qed

text \<open>
  C6, witness: the ordering example, where both patterns match and the first one listed
  wins, and a text that the label-qualified pattern does not match.
\<close>

theorem find_pattern_in_order_witness:
  "1 \<in> set (rx_groups label_qualified)
   \<and> 1 \<in> set (rx_groups bare_number)
   \<and> re_search True label_qualified ''Ref 200 Invoice #: 100'' = Some [(1, ''100'')]
   \<and> re_search True bare_number ''Ref 200 Invoice #: 100'' = Some [(1, ''200'')]
   \<and> find_pattern ''Ref 200 Invoice #: 100'' [label_qualified, bare_number] = Inr (Some ''100'')
   \<and> re_search True label_qualified ''Ref 200'' = None
   \<and> find_pattern ''Ref 200'' [label_qualified] = Inr None"
  using find_pattern_in_order [OF example_groups, of "''Ref 200 Invoice #: 100''" "[]" label_qualified "[bare_number]" "[(1, ''100'')]"]
    find_pattern_in_order [of "[label_qualified]" "''Ref 200''" "[]" label_qualified "[]" "[]"]
    example_groups
  by (simp add: search_label search_bare search_label_none
        del: re_search.simps find_pattern.simps)

subsection \<open>BatchProcessor\<close>


lemma extract_text_raises:
  "pdf_pages w p = Inl e \<Longrightarrow> extract_text w p = ([], [ReadError (path_name p) (exn_msg e)])"
  by (simp add: extract_text_def)

lemma extract_text_output:
  "snd (extract_text w p) =
     (case pdf_pages w p of Inl e \<Rightarrow> [ReadError (path_name p) (exn_msg e)] | Inr pages \<Rightarrow> [])"
  by (simp add: extract_text_def split: sum.splits)

lemma process_pdf_empty:
  "fst (extract_text w p) = [] \<Longrightarrow>
   process_pdf w p = ((new_invoice (path_name p))\<lparr>status := EmptyDocument\<rparr>, snd (extract_text w p))"
  by (simp add: process_pdf_def Let_def split_beta)

lemma process_pdf_nonempty:
  assumes "fst (extract_text w p) \<noteq> []"
  shows "\<exists>n d v.
     find_pattern (fst (extract_text w p)) NUMBER = Inr n
   \<and> find_pattern (fst (extract_text w p)) DATE = Inr d
   \<and> (\<exists>raw. find_pattern (fst (extract_text w p)) VALUE = Inr raw \<and> clean_value raw = Inr v)
   \<and> process_pdf w p =
       (\<lparr>filename = path_name p, number = n, date = d, value' = v, status = Processed\<rparr>,
        snd (extract_text w p) @ [DebugLine (path_name p) n d v])"
proof -
  obtain n where n: "find_pattern (fst (extract_text w p)) NUMBER = Inr n"
    using find_pattern_total [OF NUMBER_groups] by blast
  obtain d where d: "find_pattern (fst (extract_text w p)) DATE = Inr d"
    using find_pattern_total [OF DATE_groups] by blast
  obtain raw where raw: "find_pattern (fst (extract_text w p)) VALUE = Inr raw"
    using find_pattern_total [OF VALUE_groups] by blast
  obtain v where v: "clean_value raw = Inr v"
    using clean_value_total by blast
  from assms n d raw v have "process_pdf w p =
       (\<lparr>filename = path_name p, number = n, date = d, value' = v, status = Processed\<rparr>,
        snd (extract_text w p) @ [DebugLine (path_name p) n d v])"
    by (simp add: process_pdf_def Let_def split_beta new_invoice_def)
  with n d raw v show ?thesis by blast
qed

lemma process_pdf_filename: "filename (fst (process_pdf w p)) = path_name p"
proof (cases "fst (extract_text w p) = []")
  case True
  then show ?thesis by (simp add: process_pdf_empty new_invoice_def)
next
  case False
  from process_pdf_nonempty [OF False] show ?thesis by auto
qed

lemma process_pdf_status:
  "status (fst (process_pdf w p)) = (if fst (extract_text w p) = [] then EmptyDocument else Processed)"
proof (cases "fst (extract_text w p) = []")
  case True
  then show ?thesis by (simp add: process_pdf_empty)
next
  case False
  from process_pdf_nonempty [OF False] False show ?thesis by auto
qed

lemma process_all_map: "fst (process_all w pdfs) = map (\<lambda>p. fst (process_pdf w p)) pdfs"
  by (induction pdfs) (simp_all add: split_beta)

lemma process_all_append:
  "fst (process_all w (xs @ ys)) = fst (process_all w xs) @ fst (process_all w ys)"
  by (simp add: process_all_map)

lemma doc3_raises: "pdf_pages sample_world doc3 = Inl (LibraryError ''No /Root object'')"
  by (simp add: sample_world_def sample_pages_def doc1_def doc2_def doc3_def)

lemma doc2_no_text: "extract_text sample_world doc2 = ([], [])"
  by (simp add: extract_text_def sample_world_def sample_pages_def doc1_def doc2_def)

lemma doc_names: "path_name doc1 = ''doc1.pdf''" "path_name doc2 = ''doc2.pdf''"
  "path_name doc3 = ''doc3.pdf''"
  by (simp_all add: path_name_def doc1_def doc2_def doc3_def)

text \<open>
  C1, counterexample. The third sample document cannot be opened: the collaborator raises
  \<open>No /Root object\<close>. \<open>extract_text\<close> catches the exception itself and returns the
  empty string, so the record's status is \<open>Erro: PDF vazio\<close> (EmptyDocument), not
  ExtractionError with the failure's message.
\<close>

theorem raising_document_counterexample:
  "pdf_pages sample_world doc3 = Inl (LibraryError ''No /Root object'')
   \<and> status (fst (process_pdf sample_world doc3)) = EmptyDocument
   \<and> status (fst (process_pdf sample_world doc3)) \<noteq> ExtractionError ''No /Root object''"
proof -
  have "fst (extract_text sample_world doc3) = []"
    by (simp add: extract_text_raises [OF doc3_raises])
  then have "status (fst (process_pdf sample_world doc3)) = EmptyDocument"
    by (simp add: process_pdf_status)
  moreover have "EmptyDocument \<noteq> ExtractionError ''No /Root object''"
    by (simp add: EmptyDocument_def ExtractionError_def)
  ultimately show ?thesis using doc3_raises by simp
qed

text \<open>
  C1, amended. For every document whose text-extraction collaborator raises,
  \<open>extract_text\<close> reports the failure's message and \<open>process_pdf\<close> returns a record with
  status EmptyDocument and the three fields absent; the documents before and after it in
  the batch are processed as they would be without it.
\<close>

theorem raising_document_recorded_as_empty:
  assumes "pdf_pages w p = Inl e"
  shows "process_pdf w p =
           (\<lparr>filename = path_name p, number = None, date = None, value' = None,
              status = EmptyDocument\<rparr>,
            [ReadError (path_name p) (exn_msg e)])
       \<and> fst (process_all w (before @ p # after)) =
           fst (process_all w before) @ fst (process_pdf w p) # fst (process_all w after)"
proof -
  from assms have t: "extract_text w p = ([], [ReadError (path_name p) (exn_msg e)])"
    by (rule extract_text_raises)
  then have "process_pdf w p =
           (\<lparr>filename = path_name p, number = None, date = None, value' = None,
              status = EmptyDocument\<rparr>,
            [ReadError (path_name p) (exn_msg e)])"
    by (simp add: process_pdf_empty new_invoice_def)
  moreover have "fst (process_all w (before @ p # after)) =
           fst (process_all w before) @ fst (process_pdf w p) # fst (process_all w after)"
    by (simp add: process_all_map)
  ultimately show ?thesis by simp
qed

text \<open>
  C1, witness: the third sample document, followed in the batch by the second.
\<close>

theorem raising_document_recorded_as_empty_witness:
  "pdf_pages sample_world doc3 = Inl (LibraryError ''No /Root object'')
   \<and> process_pdf sample_world doc3 =
       (\<lparr>filename = ''doc3.pdf'', number = None, date = None, value' = None,
          status = ''Erro: PDF vazio''\<rparr>,
        [ReadError ''doc3.pdf'' ''No /Root object''])
   \<and> fst (process_all sample_world [doc3, doc2]) =
       [fst (process_pdf sample_world doc3), fst (process_pdf sample_world doc2)]"
  using raising_document_recorded_as_empty [OF doc3_raises, of "[]" "[doc2]"]
  by (simp add: doc3_raises doc_names EmptyDocument_def split_beta)

text \<open>
  C4. For every finite ordered sequence of documents the batch step gives exactly one
  record per document, in the order of the input: the output has the length of the input,
  its i-th record is the record of the i-th document and carries that document's name.
\<close>

theorem batch_one_record_per_document:
  "length (fst (process_all w pdfs)) = length pdfs
   \<and> fst (process_all w pdfs) = map (\<lambda>p. fst (process_pdf w p)) pdfs
   \<and> map filename (fst (process_all w pdfs)) = map path_name pdfs
   \<and> (\<forall>i. i < length pdfs \<longrightarrow>
         fst (process_all w pdfs) ! i = fst (process_pdf w (pdfs ! i))
       \<and> filename (fst (process_all w pdfs) ! i) = path_name (pdfs ! i))"
  by (simp add: process_all_map process_pdf_filename)

text \<open>
  C4, witness: the second of the three sample documents.
\<close>

theorem batch_one_record_per_document_witness:
  "(1::nat) < length [doc1, doc2, doc3]
   \<and> length (fst (process_all sample_world [doc1, doc2, doc3])) = 3
   \<and> fst (process_all sample_world [doc1, doc2, doc3]) ! 1 = fst (process_pdf sample_world doc2)
   \<and> filename (fst (process_all sample_world [doc1, doc2, doc3]) ! 1) = ''doc2.pdf''"
proof -
  have lt: "(1::nat) < length [doc1, doc2, doc3]"
    by simp
  note all = batch_one_record_per_document [of sample_world "[doc1, doc2, doc3]"]
  from all have len: "length (fst (process_all sample_world [doc1, doc2, doc3])) = 3"
    by simp
  from all have "\<forall>i. i < length [doc1, doc2, doc3] \<longrightarrow>
         fst (process_all sample_world [doc1, doc2, doc3]) ! i
           = fst (process_pdf sample_world ([doc1, doc2, doc3] ! i))
       \<and> filename (fst (process_all sample_world [doc1, doc2, doc3]) ! i)
           = path_name ([doc1, doc2, doc3] ! i)"
    by blast
  with lt have "fst (process_all sample_world [doc1, doc2, doc3]) ! 1
           = fst (process_pdf sample_world ([doc1, doc2, doc3] ! 1))
       \<and> filename (fst (process_all sample_world [doc1, doc2, doc3]) ! 1)
           = path_name ([doc1, doc2, doc3] ! 1)"
    by blast
  with lt len show ?thesis
    by (auto simp: doc_names simp del: process_all.simps)
qed

text \<open>
  C7. For every document whose text extraction returns the empty string, the record has
  status EmptyDocument and number, date and value absent, and \<open>process_pdf\<close> returns at
  once: it prints nothing beyond what \<open>extract_text\<close> printed, in particular not the line
  that follows the extraction of the fields.
\<close>

theorem empty_text_short_circuits:
  assumes "fst (extract_text w p) = []"
  shows "fst (process_pdf w p) =
           \<lparr>filename = path_name p, number = None, date = None, value' = None,
            status = EmptyDocument\<rparr>
       \<and> snd (process_pdf w p) = snd (extract_text w p)
       \<and> (\<forall>n d v. DebugLine (path_name p) n d v \<notin> set (snd (process_pdf w p)))"
  using assms
  by (auto simp: process_pdf_empty new_invoice_def extract_text_output split: sum.splits)

text \<open>
  C7, witness: the second sample document, whose only page has no text.
\<close>

theorem empty_text_short_circuits_witness:
  "fst (extract_text sample_world doc2) = []
   \<and> process_pdf sample_world doc2 =
       (\<lparr>filename = ''doc2.pdf'', number = None, date = None, value' = None,
          status = ''Erro: PDF vazio''\<rparr>, [])"
  using empty_text_short_circuits [of sample_world doc2]
  by (simp add: doc2_no_text doc_names EmptyDocument_def prod_eq_iff)


















subsection \<open>Report and persistence\<close>

lemma write_row_ok:
  "\<forall>v. cell_err w v = None \<Longrightarrow> snd (write_row w i j vs wb) = None"
  by (induction vs arbitrary: j wb) simp_all

lemma write_rows_ok:
  "\<forall>v. cell_err w v = None \<Longrightarrow> snd (write_rows w i invoices wb) = None"
proof (induction invoices arbitrary: i wb)
  case Nil
  then show ?case by simp
next
  case (Cons inv invoices)
  from Cons.prems have "snd (write_row w i 1 (to_row inv) wb) = None"
    by (rule write_row_ok)
  then obtain wb' where "write_row w i 1 (to_row inv) wb = (wb', None)"
    by (cases "write_row w i 1 (to_row inv) wb") simp
  with Cons show ?case by simp
qed

lemma write_headers_ok:
  "\<forall>v. cell_err w v = None \<Longrightarrow> \<forall>(c, h)\<in>set hs. \<exists>rc. cell_coord c = Inr rc \<Longrightarrow>
   snd (write_headers w hs wb) = None"
  by (induction hs arbitrary: wb) auto

lemma fill_sheet_ok:
  assumes "\<forall>v. cell_err w v = None"
    and "\<forall>(c, h)\<in>set (HEADERS config). \<exists>rc. cell_coord c = Inr rc"
  shows "snd (fill_sheet w config invoices) = None"
proof -
  from assms have "snd (write_headers w (HEADERS config) new_workbook) = None"
    by (rule write_headers_ok)
  then obtain wb where "write_headers w (HEADERS config) new_workbook = (wb, None)"
    by (cases "write_headers w (HEADERS config) new_workbook") simp
  with write_rows_ok [OF assms(1)] show ?thesis
    by (simp add: fill_sheet_def)
qed

lemma default_coords:
  "cell_coord ''A1'' = Inr (1, 1)" "cell_coord ''B1'' = Inr (1, 2)" "cell_coord ''C1'' = Inr (1, 3)"
  "cell_coord ''D1'' = Inr (1, 4)" "cell_coord ''E1'' = Inr (1, 5)"
  by (simp_all add: cell_coord_def is_upper_def is_digit_def digits_val_def col_index_def)

lemma default_headers_ok: "\<forall>(c, h)\<in>set (HEADERS default_config). \<exists>rc. cell_coord c = Inr rc"
  by (simp add: default_config_def default_coords)

lemma sample_cells_ok: "\<forall>v. cell_err sample_world v = None"
  by (simp add: sample_world_def)

lemma create_excel_none:
  "snd (fill_sheet w config invoices) = None \<Longrightarrow> create_excel w config invoices = (None, [])"
  by (cases "fill_sheet w config invoices") (simp add: create_excel_def)

lemma create_excel_some:
  "snd (fill_sheet w config invoices) = Some e \<Longrightarrow>
   create_excel w config invoices = (Some (fst (fill_sheet w config invoices)), [CreateError (exn_msg e)])"
  by (cases "fill_sheet w config invoices") (simp add: create_excel_def)

lemma run_prepare_proceeds:
  assumes "dir_exists w (PDF_DIR config)" and "mkdir_err w (EXCEL_DIR config) = None"
    and "glob_pdf w (PDF_DIR config) = Inr pdf_files" and "pdf_files \<noteq> []"
  shows "run_prepare w config =
    (Proceed (fst (create_excel w config (fst (process_all w pdf_files))), now_stamp w,
              EXCEL_DIR config @ [report_name (now_stamp w)]),
     [Processing (length pdf_files)] @ snd (process_all w pdf_files)
       @ snd (create_excel w config (fst (process_all w pdf_files))))"
  using assms by (simp add: run_prepare_def Let_def split_beta)

lemma run_prepare_shape:
  assumes "run_prepare w config = (Proceed (wb, timestamp, excel_path), out)"
  shows "timestamp = now_stamp w \<and> excel_path = EXCEL_DIR config @ [report_name timestamp]"
  using assms
  by (auto simp: run_prepare_def Let_def split_beta split: if_splits option.splits sum.splits)

text \<open>
  C2. For every list of records for which filling the worksheet raises no exception,
  \<open>create_excel\<close> returns \<open>None\<close>, not the workbook it built. In a run that reaches the
  save step with these records the workbook bound in \<open>run\<close> is \<open>None\<close>, the call
  \<open>wb.save\<close> raises \<open>AttributeError\<close>, so does the fallback, and \<open>run\<close> raises.
\<close>

theorem create_excel_returns_none:
  assumes "snd (fill_sheet w config invoices) = None"
  shows "create_excel w config invoices = (None, [])
     \<and> fst (create_excel w config invoices) \<noteq> Some (fst (fill_sheet w config invoices))
     \<and> (dir_exists w (PDF_DIR config) \<and> mkdir_err w (EXCEL_DIR config) = None
          \<and> glob_pdf w (PDF_DIR config) = Inr pdf_files \<and> pdf_files \<noteq> []
          \<and> invoices = fst (process_all w pdf_files)
        \<longrightarrow> fst (run_prepare w config) =
              Proceed (None, now_stamp w, EXCEL_DIR config @ [report_name (now_stamp w)])
            \<and> wb_save w None (EXCEL_DIR config @ [report_name (now_stamp w)]) =
                Some (AttributeError no_save_attribute)
            \<and> fst (run w config) = Inl (AttributeError no_save_attribute))"
proof -
  from assms have none: "create_excel w config invoices = (None, [])"
    by (rule create_excel_none)
  have "dir_exists w (PDF_DIR config) \<and> mkdir_err w (EXCEL_DIR config) = None
          \<and> glob_pdf w (PDF_DIR config) = Inr pdf_files \<and> pdf_files \<noteq> []
          \<and> invoices = fst (process_all w pdf_files)
        \<longrightarrow> fst (run_prepare w config) =
              Proceed (None, now_stamp w, EXCEL_DIR config @ [report_name (now_stamp w)])
            \<and> wb_save w None (EXCEL_DIR config @ [report_name (now_stamp w)]) =
                Some (AttributeError no_save_attribute)
            \<and> fst (run w config) = Inl (AttributeError no_save_attribute)"
  proof (intro impI, elim conjE)
    assume h: "dir_exists w (PDF_DIR config)" "mkdir_err w (EXCEL_DIR config) = None"
      "glob_pdf w (PDF_DIR config) = Inr pdf_files" "pdf_files \<noteq> []"
      and inv: "invoices = fst (process_all w pdf_files)"
    from run_prepare_proceeds [OF h] none inv
    have prep: "run_prepare w config =
      (Proceed (None, now_stamp w, EXCEL_DIR config @ [report_name (now_stamp w)]),
       [Processing (length pdf_files)] @ snd (process_all w pdf_files))"
      by simp
    then show "fst (run_prepare w config) =
              Proceed (None, now_stamp w, EXCEL_DIR config @ [report_name (now_stamp w)])
            \<and> wb_save w None (EXCEL_DIR config @ [report_name (now_stamp w)]) =
                Some (AttributeError no_save_attribute)
            \<and> fst (run w config) = Inl (AttributeError no_save_attribute)"
      by (simp add: run_def run_save_def wb_save_def)
  qed
  with none show ?thesis by simp
qed

text \<open>
  C2, witness: the three sample documents with the default configuration.
\<close>

theorem create_excel_returns_none_witness:
  "snd (fill_sheet sample_world default_config (fst (process_all sample_world [doc1, doc2, doc3]))) = None
   \<and> glob_pdf sample_world (PDF_DIR default_config) = Inr [doc1, doc2, doc3]
   \<and> create_excel sample_world default_config (fst (process_all sample_world [doc1, doc2, doc3]))
       = (None, [])
   \<and> fst (run sample_world default_config) = Inl (AttributeError no_save_attribute)"
proof -
  have ok: "snd (fill_sheet sample_world default_config
                  (fst (process_all sample_world [doc1, doc2, doc3]))) = None"
    using sample_cells_ok default_headers_ok by (rule fill_sheet_ok)
  have w: "dir_exists sample_world (PDF_DIR default_config)"
    "mkdir_err sample_world (EXCEL_DIR default_config) = None"
    "glob_pdf sample_world (PDF_DIR default_config) = Inr [doc1, doc2, doc3]"
    by (simp_all add: sample_world_def)
  from create_excel_returns_none [OF ok, of "[doc1, doc2, doc3]"] ok w show ?thesis
    by (simp del: process_all.simps)
qed

text \<open>
  C3. For every run that reaches the save step, the report is first saved at
  \<open>EXCEL_DIR / invoices_<timestamp>.xlsx\<close>. When that succeeds nothing else is tried;
  when it fails the same workbook is saved under the same file name in the current
  directory. \<open>run\<close> returns \<open>True\<close> if and only if one of the two saves succeeds; when
  both fail the exception of the fallback leaves \<open>run\<close>.
\<close>

theorem two_tier_save:
  assumes "run_prepare w config = (Proceed (wb, timestamp, excel_path), out)"
  shows "excel_path = EXCEL_DIR config @ [report_name timestamp]
   \<and> (wb_save w wb excel_path = None \<longrightarrow> run w config = (Inr True, out @ [ExcelSaved excel_path]))
   \<and> (wb_save w wb excel_path = Some e \<and> wb_save w wb [report_name timestamp] = None
       \<longrightarrow> run w config =
             (Inr True, out @ [SaveError (exn_msg e), FallbackSaved [report_name timestamp]]))
   \<and> (wb_save w wb excel_path = Some e \<and> wb_save w wb [report_name timestamp] = Some e'
       \<longrightarrow> run w config = (Inl e', out @ [SaveError (exn_msg e)]))
   \<and> ((fst (run w config) = Inr True) =
        (wb_save w wb excel_path = None \<or> wb_save w wb [report_name timestamp] = None))"
proof -
  from run_prepare_shape [OF assms]
  have path: "excel_path = EXCEL_DIR config @ [report_name timestamp]"
    by simp
  have run_eq: "run w config =
      (case run_save w (wb, timestamp, excel_path) of (r, out') \<Rightarrow> (r, out @ out'))"
    using assms by (simp add: run_def)
  have a: "wb_save w wb excel_path = None \<longrightarrow>
      run w config = (Inr True, out @ [ExcelSaved excel_path])"
    by (simp add: run_eq run_save_def)
  have b: "wb_save w wb excel_path = Some e \<and> wb_save w wb [report_name timestamp] = None
       \<longrightarrow> run w config =
             (Inr True, out @ [SaveError (exn_msg e), FallbackSaved [report_name timestamp]])"
    by (simp add: run_eq run_save_def)
  have c: "wb_save w wb excel_path = Some e \<and> wb_save w wb [report_name timestamp] = Some e'
       \<longrightarrow> run w config = (Inl e', out @ [SaveError (exn_msg e)])"
    by (simp add: run_eq run_save_def)
  have d: "(fst (run w config) = Inr True) =
        (wb_save w wb excel_path = None \<or> wb_save w wb [report_name timestamp] = None)"
    by (simp add: run_eq run_save_def Let_def split: option.splits)
  from path a b c d show ?thesis by blast
qed

lemma refusing_fill:
  "fill_sheet refusing_world default_config invoices = (new_workbook, Some (LibraryError ''read-only''))"
  by (simp add: fill_sheet_def default_config_def default_coords refusing_world_def)

lemma refusing_prepare:
  "run_prepare refusing_world default_config =
     (Proceed (Some new_workbook, ''20240102_030405'',
               EXCEL_DIR default_config @ [report_name ''20240102_030405'']),
      [Processing 3] @ snd (process_all refusing_world [doc1, doc2, doc3])
        @ [CreateError ''read-only''])"
proof -
  have w: "dir_exists refusing_world (PDF_DIR default_config)"
    "mkdir_err refusing_world (EXCEL_DIR default_config) = None"
    "glob_pdf refusing_world (PDF_DIR default_config) = Inr [doc1, doc2, doc3]"
    "now_stamp refusing_world = ''20240102_030405''"
    by (simp_all add: refusing_world_def sample_world_def)
  have c: "create_excel refusing_world default_config invoices =
      (Some new_workbook, [CreateError ''read-only''])" for invoices
    by (simp add: create_excel_def refusing_fill)
  from run_prepare_proceeds [OF w(1,2,3)] w(4) c show ?thesis
    by (simp del: process_all.simps)
qed

lemma refusing_saves:
  "wb_save refusing_world (Some new_workbook)
     (EXCEL_DIR default_config @ [report_name ''20240102_030405''])
     = Some (LibraryError ''No such file or directory'')"
  "wb_save refusing_world (Some new_workbook) [report_name ''20240102_030405''] = None"
  by (simp_all add: wb_save_def refusing_world_def sample_world_def default_config_def)

text \<open>
  C3, witness: a run in which the target directory cannot be written and the fallback
  succeeds.
\<close>

theorem two_tier_save_witness:
  "run_prepare refusing_world default_config =
     (Proceed (Some new_workbook, ''20240102_030405'',
               EXCEL_DIR default_config @ [report_name ''20240102_030405'']),
      [Processing 3] @ snd (process_all refusing_world [doc1, doc2, doc3])
        @ [CreateError ''read-only''])
   \<and> wb_save refusing_world (Some new_workbook)
       (EXCEL_DIR default_config @ [report_name ''20240102_030405''])
       = Some (LibraryError ''No such file or directory'')
   \<and> wb_save refusing_world (Some new_workbook) [report_name ''20240102_030405''] = None
   \<and> run refusing_world default_config =
       (Inr True,
        ([Processing 3] @ snd (process_all refusing_world [doc1, doc2, doc3])
           @ [CreateError ''read-only''])
        @ [SaveError ''No such file or directory'',
           FallbackSaved [report_name ''20240102_030405'']])"
  using two_tier_save [OF refusing_prepare, of "LibraryError ''No such file or directory''"]
    refusing_prepare refusing_saves
  by (simp del: process_all.simps)

lemma zero_text: "extract_text zero_world doc1 = (''Total: 0,00'', [])"
  by (simp add: extract_text_def zero_world_def sample_world_def)

lemma zero_number: "find_pattern ''Total: 0,00'' NUMBER = Inr None"
  by code_simp

lemma zero_date: "find_pattern ''Total: 0,00'' DATE = Inr None"
  by code_simp

lemma zero_raw: "find_pattern ''Total: 0,00'' VALUE = Inr (Some ''0,00'')"
  by code_simp

lemma zero_cleaned: "disambiguate (strip_value ''0,00'') = ''0.00''"
  by (simp add: disambiguate_def strip_value_def str_replace_def is_digit_def)

lemma zero_float: "py_float ''0.00'' = Inr 0"
  by (simp add: py_float_def is_digit_def digits_val_def)

lemma zero_value: "clean_value (Some ''0,00'') = Inr (Some 0)"
  by (simp add: clean_value_def zero_cleaned zero_float)

lemma zero_record:
  "fst (process_pdf zero_world doc1) =
     \<lparr>filename = ''doc1.pdf'', number = None, date = None, value' = Some 0,
      status = Processed\<rparr>"
  by (simp add: process_pdf_def zero_text zero_number zero_date zero_raw zero_value
        new_invoice_def doc_names)

text \<open>
  C8, failing input. A document reading \<open>Total: 0,00\<close> gives a record whose value is
  present, 0.0, with status Processed; \<open>self.value or ...\<close> takes 0.0 for false, so the
  row shows the sentinel in the value cell although the field is not absent.
\<close>

theorem zero_value_shown_as_not_found:
  "value' (fst (process_pdf zero_world doc1)) = Some 0
   \<and> status (fst (process_pdf zero_world doc1)) = Processed
   \<and> to_row (fst (process_pdf zero_world doc1)) ! 2 = CStr not_found
   \<and> to_row \<lparr>filename = ''a.pdf'', number = Some ''7'', date = None, value' = Some 0,
              status = Processed\<rparr>
       = [CStr ''7'', CStr not_found, CStr not_found, CStr ''a.pdf'', CStr Processed]"
  by (simp add: zero_record to_row_def str_or_def float_or_def)

end
